theory Spec2Isabelle
  imports Complex_Main "HOL-Library.Word"
begin

section \<open>Stream frame parsing: ttsService.synthesizeTextStreamAdvanced\<close>

text \<open>
  The read loop of \<^verbatim>\<open>synthesizeTextStreamAdvanced\<close> (ttsService.ts, lines 120-150):
  \<^verbatim>\<open>
    let buffer = '';
    while (true) {
      const { done, value } = await reader.read();
      if (done) break;
      buffer += decoder.decode(value, { stream: true });
      const lines = buffer.split('\n');
      buffer = lines.pop() || '';
      for (const line of lines) {
        if (line.startsWith('data: ')) {
          try { callback(JSON.parse(line.slice(6))); }
          catch (error) { console.error(...); }
        }
      }
    }
  \<close>
  A read is the text that one \<^verbatim>\<open>reader.read()\<close> contributes. The decoder runs in streaming
  mode, so the text of the reads concatenates to the text of the stream; the byte 0x0A
  never occurs inside a multi-byte UTF-8 sequence, so splitting at it is the same on
  bytes and on decoded text. \<^verbatim>\<open>JSON.parse\<close> is a parameter: \<open>None\<close> is the thrown
  SyntaxError. The result of the loop is the buffer and the events handed to the
  callback so far, in order.
\<close>

text \<open>\<^verbatim>\<open>s.split('\n')\<close>: never empty; a trailing newline yields a final empty piece.\<close>

fun split_nl :: "string \<Rightarrow> string list" where
  "split_nl [] = [[]]"
| "split_nl (c # cs) =
     (if c = CHR 0x0A then [] # split_nl cs
      else (case split_nl cs of [] \<Rightarrow> [[c]] | l # ls \<Rightarrow> (c # l) # ls))"

text \<open>\<^verbatim>\<open>lines.pop() || ''\<close> and the array that \<^verbatim>\<open>pop\<close> leaves behind.\<close>

definition pop_or_empty :: "string list \<Rightarrow> string" where
  "pop_or_empty lines = (if lines = [] then [] else last lines)"

definition startsWith :: "string \<Rightarrow> string \<Rightarrow> bool" where
  "startsWith line p = (take (length p) line = p)"

text \<open>The \<^verbatim>\<open>for (const line of lines)\<close> loop: the events passed to the callback.\<close>

fun process_lines :: "(string \<Rightarrow> 'e option) \<Rightarrow> string list \<Rightarrow> 'e list" where
  "process_lines parse [] = []"
| "process_lines parse (line # lines) =
     (if startsWith line ''data: '' then
        (case parse (drop 6 line) of
           Some eventData \<Rightarrow> eventData # process_lines parse lines
         | None \<Rightarrow> process_lines parse lines)
      else process_lines parse lines)"

text \<open>One iteration of the \<^verbatim>\<open>while\<close> loop with a read that is not \<^verbatim>\<open>done\<close>.\<close>

definition read_step :: "(string \<Rightarrow> 'e option) \<Rightarrow> string \<times> 'e list \<Rightarrow> string \<Rightarrow> string \<times> 'e list" where
  "read_step parse st val =
     (let buffer = fst st @ val;
          lines = split_nl buffer
      in (pop_or_empty lines, snd st @ process_lines parse (butlast lines)))"

definition read_loop :: "(string \<Rightarrow> 'e option) \<Rightarrow> string list \<Rightarrow> string \<times> 'e list" where
  "read_loop parse reads = foldl (read_step parse) ([], []) reads"

text \<open>The text of a stream whose records are the given lines, each newline-terminated.\<close>

definition stream_of :: "string list \<Rightarrow> string" where
  "stream_of lines = concat (map (\<lambda>l. l @ [CHR 0x0A]) lines)"

definition no_newline :: "string \<Rightarrow> bool" where
  "no_newline l = (CHR 0x0A \<notin> set l)"

text \<open>The record line that carries a payload: the fixed marker, then the payload.\<close>

definition data_line :: "string \<Rightarrow> string" where
  "data_line payload = ''data: '' @ payload"

section \<open>Base64 payloads: atob and the Uint8Array copy\<close>

text \<open>
  \<^verbatim>\<open>atob\<close> is the browser's forgiving-base64 decoder: ASCII whitespace is removed; when the
  length is then a multiple of four, one or two trailing \<^verbatim>\<open>=\<close> are removed; a length
  of 1 modulo 4 or a character outside the alphabet throws (\<open>None\<close>); every four
  characters give three bytes, a final group of three gives two bytes and a final group
  of two gives one. The handler copies the char codes of the result into a Uint8Array,
  so the model returns the bytes.
\<close>

type_synonym byte = "8 word"

definition b64_alphabet :: string where
  "b64_alphabet = ''ABCDEFGHIJKLMNOPQRSTUVWXYZabcdefghijklmnopqrstuvwxyz0123456789+/''"

fun index_in :: "char \<Rightarrow> string \<Rightarrow> nat option" where
  "index_in c [] = None"
| "index_in c (x # xs) =
     (if c = x then Some 0 else (case index_in c xs of None \<Rightarrow> None | Some i \<Rightarrow> Some (Suc i)))"

definition b64_value :: "char \<Rightarrow> nat option" where
  "b64_value c = index_in c b64_alphabet"

definition ascii_whitespace :: "char \<Rightarrow> bool" where
  "ascii_whitespace c = (c = CHR 0x09 \<or> c = CHR 0x0A \<or> c = CHR 0x0C \<or> c = CHR 0x0D \<or> c = CHR 0x20)"

definition strip_padding :: "string \<Rightarrow> string" where
  "strip_padding t =
     (if length t mod 4 = 0 \<and> t \<noteq> [] \<and> last t = CHR ''='' then
        (if butlast t \<noteq> [] \<and> last (butlast t) = CHR ''='' then butlast (butlast t)
         else butlast t)
      else t)"

fun b64_bytes :: "nat list \<Rightarrow> nat list" where
  "b64_bytes (a # b # c # d # rest) =
     (a * 4 + b div 16) # ((b mod 16) * 16 + c div 4) # ((c mod 4) * 64 + d) # b64_bytes rest"
| "b64_bytes [a, b, c] = [a * 4 + b div 16, (b mod 16) * 16 + c div 4]"
| "b64_bytes [a, b] = [a * 4 + b div 16]"
| "b64_bytes [a] = []"
| "b64_bytes [] = []"

definition atob :: "string \<Rightarrow> byte list option" where
  "atob s =
     (let t = strip_padding (filter (\<lambda>c. \<not> ascii_whitespace c) s)
      in if length t mod 4 = 1 then None
         else (case those (map b64_value t) of
                 None \<Rightarrow> None
               | Some vs \<Rightarrow> Some (map of_nat (b64_bytes vs))))"

text \<open>
  \<^verbatim>\<open>newChunks.reduce((sum, chunk) => sum + chunk.length, 0)\<close> and the copy loop
  \<^verbatim>\<open>
    const combinedArray = new Uint8Array(totalSize);
    let offset = 0;
    for (const chunk of newChunks) { combinedArray.set(chunk, offset); offset += chunk.length; }
  \<close>
  \<^verbatim>\<open>TypedArray.set\<close> throws a RangeError when the source does not fit at the offset.
\<close>

definition totalSize_of :: "byte list list \<Rightarrow> nat" where
  "totalSize_of newChunks = foldl (\<lambda>sum chunk. sum + length chunk) 0 newChunks"

definition uint8_set :: "byte list \<Rightarrow> byte list \<Rightarrow> nat \<Rightarrow> byte list option" where
  "uint8_set arr chunk offset =
     (if offset + length chunk \<le> length arr
      then Some (take offset arr @ chunk @ drop (offset + length chunk) arr)
      else None)"

fun copy_chunks :: "byte list \<Rightarrow> nat \<Rightarrow> byte list list \<Rightarrow> byte list option" where
  "copy_chunks combinedArray offset [] = Some combinedArray"
| "copy_chunks combinedArray offset (chunk # chunks) =
     (case uint8_set combinedArray chunk offset of
        None \<Rightarrow> None
      | Some arr \<Rightarrow> copy_chunks arr (offset + length chunk) chunks)"

definition combine :: "byte list list \<Rightarrow> byte list option" where
  "combine newChunks = copy_chunks (replicate (totalSize_of newChunks) 0) 0 newChunks"

section \<open>The synthesis page: the TextToSpeech component\<close>

text \<open>
  The component of TTSHistoryModal.tsx. Its React state variables and its two refs are
  the fields of \<open>TextToSpeech\<close>. An \<^verbatim>\<open>Audio\<close> element is only ever created by
  \<^verbatim>\<open>new Audio(url)\<close> and stored in one ref, so no element is shared between the refs;
  an element that a ref no longer holds still exists in the browser (it may be playing,
  or its load may be pending) and is kept in \<open>detached\<close>. \<^verbatim>\<open>URL.createObjectURL\<close> registers a
  blob and returns a fresh URL: the index in \<open>blobs\<close>. Whether \<^verbatim>\<open>play()\<close> is honoured is
  the browser's decision; \<open>play_verdicts\<close> holds its answers to the coming calls
  (\<open>False\<close>, or none left: the promise rejects and the element stays paused).
  Console output and toast messages are not part of the state.
\<close>

datatype event_type = EvStart | EvAudioChunk | EvComplete | EvError | EvEnd | EvHeartbeat | EvOther string

record TTSStreamEvent =
  ev_type :: event_type
  session_id :: string
  data :: "string option"
  chunk_count :: "int option"
  total_size :: "int option"
  is_final :: "bool option"
  ev_error :: "string option"
  ev_message :: "string option"
  ev_provider :: "string option"
  ev_voice :: "string option"
  text_length :: "int option"
  ev_timestamp :: "int option"

datatype url = BlobUrl nat | HttpUrl string

datatype result_status = StatusPending | StatusStreaming | StatusCompleted | StatusError

record SynthesisResult =
  result_id :: string
  result_text :: string
  provider :: string
  voice :: string
  duration :: real
  audio_length :: real
  file_size :: nat
  download_url :: "string option"
  timestamp :: string
  status :: "result_status option"
  error :: "string option"
  audio_chunks :: "byte list list option"
  stream_audio_url :: "url option"

record Blob =
  blob_bytes :: "byte list"
  blob_type :: string

text \<open>
  The event handlers an element carries, by the place that created it, with the values
  their closures captured: \<^verbatim>\<open>playStreamingAudio\<close> (the result id),
  \<^verbatim>\<open>updateStreamingAudio\<close> (the result id, \<^verbatim>\<open>currentTime\<close> and \<^verbatim>\<open>wasPlaying\<close>) and
  \<^verbatim>\<open>playAudio\<close> (the result id).
\<close>

datatype handler_set =
    StreamingHandlers string
  | UpdatedHandlers string real bool
  | ResultHandlers string

record Audio =
  src :: url
  paused :: bool
  currentTime :: real
  handlers :: handler_set

text \<open>\<^verbatim>\<open>HTMLMediaElement.duration\<close>: seconds, \<^verbatim>\<open>Infinity\<close> for an unbounded stream, or \<^verbatim>\<open>NaN\<close>.\<close>

datatype media_duration = Seconds real | Unbounded | NotANumber

definition before_duration :: "real \<Rightarrow> media_duration \<Rightarrow> bool" where
  "before_duration t d = (case d of Seconds x \<Rightarrow> t < x | Unbounded \<Rightarrow> True | NotANumber \<Rightarrow> False)"

text \<open>
  The status line: nothing, the connecting notice, the start notice with the provider,
  the chunk notice, and the completion notice. The chunk notice prints
  \<^verbatim>\<open>chunk_count\<close> and \<^verbatim>\<open>Math.round((total_size || 0) / 1024)\<close>; the model keeps the
  two event fields it is printed from.
\<close>

datatype status_line =
    NoStatus
  | Connecting
  | SynthesisStarted "string option"
  | ReceivingChunk "int option" "int option"
  | SynthesisComplete

record TextToSpeech =
  results :: "SynthesisResult list"
  currentPlaying :: "string option"
  streamingStatus :: status_line
  streamingAudio :: "string option"
  audioRef :: "Audio option"
  streamingAudioRef :: "Audio option"
  detached :: "Audio list"
  blobs :: "Blob list"
  play_verdicts :: "bool list"

text \<open>
  A function of the component reads state variables through its closure: it sees the
  values of the render that created it, not what a setter has stored since. These
  captured values are passed as a \<open>render\<close>; refs are read from the live state.
  \<open>baseURL\<close> is \<^verbatim>\<open>import.meta.env.VITE_API_URL\<close> or its fallback.
\<close>

record render =
  selectedFormat :: string
  seen_streamingAudio :: "string option"
  seen_currentPlaying :: "string option"
  baseURL :: string

definition createObjectURL :: "Blob \<Rightarrow> TextToSpeech \<Rightarrow> url \<times> TextToSpeech" where
  "createObjectURL blob st = (BlobUrl (length (blobs st)), st\<lparr>blobs := blobs st @ [blob]\<rparr>)"

definition blob_at :: "TextToSpeech \<Rightarrow> url \<Rightarrow> Blob option" where
  "blob_at st u =
     (case u of
        BlobUrl n \<Rightarrow> (if n < length (blobs st) then Some (blobs st ! n) else None)
      | HttpUrl _ \<Rightarrow> None)"

definition new_Audio :: "url \<Rightarrow> handler_set \<Rightarrow> Audio" where
  "new_Audio u h = \<lparr>src = u, paused = True, currentTime = 0, handlers = h\<rparr>"

definition pause :: "Audio \<Rightarrow> Audio" where
  "pause a = a\<lparr>paused := True\<rparr>"

definition play_verdict :: "bool list \<Rightarrow> bool" where
  "play_verdict vs = (case vs of [] \<Rightarrow> False | v # _ \<Rightarrow> v)"

text \<open>\<^verbatim>\<open>element.play()\<close>: the element and the remaining verdicts.\<close>

definition play :: "Audio \<Rightarrow> bool list \<Rightarrow> Audio \<times> bool list" where
  "play a vs = (if play_verdict vs then a\<lparr>paused := False\<rparr> else a, tl vs)"

definition drop_ref :: "Audio option \<Rightarrow> Audio list \<Rightarrow> Audio list" where
  "drop_ref r ds = (case r of None \<Rightarrow> ds | Some a \<Rightarrow> ds @ [a])"

text \<open>
  \<^verbatim>\<open>playStreamingAudio(resultId, audioUrl)\<close>: pause both refs' elements, store a new
  element in \<^verbatim>\<open>streamingAudioRef\<close>, attach the handlers, call \<^verbatim>\<open>play()\<close>.
\<close>

definition playStreamingAudio :: "string \<Rightarrow> url \<Rightarrow> TextToSpeech \<Rightarrow> TextToSpeech" where
  "playStreamingAudio resultId audioUrl st =
     (let old_streaming = map_option pause (streamingAudioRef st);
          old_audio = map_option pause (audioRef st);
          (newAudio, vs) = play (new_Audio audioUrl (StreamingHandlers resultId)) (play_verdicts st)
      in st\<lparr>audioRef := old_audio,
             streamingAudioRef := Some newAudio,
             detached := drop_ref old_streaming (detached st),
             play_verdicts := vs\<rparr>)"

text \<open>
  \<^verbatim>\<open>updateStreamingAudio(resultId, newAudioUrl)\<close>: only when the closure's
  \<^verbatim>\<open>streamingAudio\<close> is this result and the ref holds an element: capture
  \<^verbatim>\<open>currentTime\<close> and \<^verbatim>\<open>wasPlaying\<close>, create the new element with its handlers, pause the
  old element, store the new one in the ref. Nothing is played here: \<^verbatim>\<open>play()\<close> is in
  \<^verbatim>\<open>onloadeddata\<close>.
\<close>

definition updateStreamingAudio :: "render \<Rightarrow> string \<Rightarrow> url \<Rightarrow> TextToSpeech \<Rightarrow> TextToSpeech" where
  "updateStreamingAudio rd resultId newAudioUrl st =
     (case streamingAudioRef st of
        None \<Rightarrow> st
      | Some cur \<Rightarrow>
          if seen_streamingAudio rd = Some resultId then
            (let newAudio = new_Audio newAudioUrl
                   (UpdatedHandlers resultId (currentTime cur) (\<not> paused cur))
             in st\<lparr>streamingAudioRef := Some newAudio,
                    detached := detached st @ [pause cur]\<rparr>)
          else st)"

text \<open>
  The \<^verbatim>\<open>onloadeddata\<close> handler of \<^verbatim>\<open>updateStreamingAudio\<close>, run on its own element when
  the browser has loaded it and knows its duration:
  \<^verbatim>\<open>
    if (currentTime > 0 && currentTime < newAudio.duration) newAudio.currentTime = currentTime;
    if (wasPlaying) newAudio.play().catch(...);
  \<close>
  Elements created elsewhere have no such handler.
\<close>

definition onloadeddata :: "media_duration \<Rightarrow> Audio \<Rightarrow> bool list \<Rightarrow> Audio \<times> bool list" where
  "onloadeddata dur newAudio vs =
     (case handlers newAudio of
        UpdatedHandlers resultId t wasPlaying \<Rightarrow>
          (let a = (if t > 0 \<and> before_duration t dur then newAudio\<lparr>currentTime := t\<rparr> else newAudio)
           in if wasPlaying then play a vs else (a, vs))
      | _ \<Rightarrow> (newAudio, vs))"

text \<open>The browser fires \<^verbatim>\<open>loadeddata\<close> on the element in \<^verbatim>\<open>streamingAudioRef\<close>.\<close>

definition loadeddata_streaming :: "media_duration \<Rightarrow> TextToSpeech \<Rightarrow> TextToSpeech" where
  "loadeddata_streaming dur st =
     (case streamingAudioRef st of
        None \<Rightarrow> st
      | Some a \<Rightarrow>
          (let (a', vs) = onloadeddata dur a (play_verdicts st)
           in st\<lparr>streamingAudioRef := Some a', play_verdicts := vs\<rparr>))"

text \<open>The \<^verbatim>\<open>onplay\<close> handlers: what they store, by the element that fired.\<close>

definition onplay :: "Audio \<Rightarrow> TextToSpeech \<Rightarrow> TextToSpeech" where
  "onplay a st =
     (case handlers a of
        StreamingHandlers resultId \<Rightarrow> st\<lparr>currentPlaying := Some resultId, streamingAudio := Some resultId\<rparr>
      | UpdatedHandlers resultId t w \<Rightarrow> st\<lparr>currentPlaying := Some resultId, streamingAudio := Some resultId\<rparr>
      | ResultHandlers resultId \<Rightarrow> st\<lparr>currentPlaying := Some resultId\<rparr>)"

text \<open>The browser fires \<^verbatim>\<open>play\<close> on the element in \<^verbatim>\<open>streamingAudioRef\<close>.\<close>

definition played_streaming :: "TextToSpeech \<Rightarrow> TextToSpeech" where
  "played_streaming st = (case streamingAudioRef st of None \<Rightarrow> st | Some a \<Rightarrow> onplay a st)"

text \<open>Playback has carried the element in \<^verbatim>\<open>streamingAudioRef\<close> to position \<open>t\<close>.\<close>

definition playhead :: "real \<Rightarrow> TextToSpeech \<Rightarrow> TextToSpeech" where
  "playhead t st = st\<lparr>streamingAudioRef := map_option (\<lambda>a. a\<lparr>currentTime := t\<rparr>) (streamingAudioRef st)\<rparr>"

definition playable_url :: "render \<Rightarrow> SynthesisResult \<Rightarrow> url option" where
  "playable_url rd result =
     (case stream_audio_url result of
        Some u \<Rightarrow> Some u
      | None \<Rightarrow>
          (case download_url result of
             None \<Rightarrow> None
           | Some d \<Rightarrow> if d = [] then None else Some (HttpUrl (baseURL rd @ d))))"

text \<open>
  \<^verbatim>\<open>playAudio(result)\<close>: the play button of a result card. It pauses and replaces the
  element of \<^verbatim>\<open>audioRef\<close> only.
\<close>

definition playAudio :: "render \<Rightarrow> SynthesisResult \<Rightarrow> TextToSpeech \<Rightarrow> TextToSpeech" where
  "playAudio rd result st =
     (if seen_currentPlaying rd = Some (result_id result) then
        (case audioRef st of
           None \<Rightarrow> st
         | Some a \<Rightarrow> st\<lparr>currentPlaying := None, audioRef := Some (pause a)\<rparr>)
      else
        (let old_audio = map_option pause (audioRef st)
         in case playable_url rd result of
              None \<Rightarrow> st\<lparr>audioRef := old_audio\<rparr>
            | Some audioUrl \<Rightarrow>
                (let (newAudio, vs) = play (new_Audio audioUrl (ResultHandlers (result_id result)))
                                        (play_verdicts st)
                 in st\<lparr>currentPlaying := (if paused newAudio then None else currentPlaying st),
                        audioRef := Some newAudio,
                        detached := drop_ref old_audio (detached st),
                        play_verdicts := vs\<rparr>)))"

text \<open>\<^verbatim>\<open>stopAudio()\<close>: pause and rewind the elements of both refs.\<close>

definition stopAudio :: "TextToSpeech \<Rightarrow> TextToSpeech" where
  "stopAudio st =
     st\<lparr>currentPlaying := None,
        streamingAudio := None,
        audioRef := map_option (\<lambda>a. (pause a)\<lparr>currentTime := 0\<rparr>) (audioRef st),
        streamingAudioRef := map_option (\<lambda>a. (pause a)\<lparr>currentTime := 0\<rparr>) (streamingAudioRef st)\<rparr>"

text \<open>The elements that are playing: not paused, whether a ref holds them or not.\<close>

definition playing_elements :: "TextToSpeech \<Rightarrow> Audio list" where
  "playing_elements st =
     filter (\<lambda>a. \<not> paused a)
       (drop_ref (audioRef st) [] @ drop_ref (streamingAudioRef st) [] @ detached st)"

text \<open>
  \<^verbatim>\<open>updateResult(resultId, updates)\<close>: \<^verbatim>\<open>prev.map(result => result.id === resultId ?
  { ...result, ...updates } : result)\<close>. The partial object is the function that
  overwrites the fields it names.
\<close>

definition updateResult ::
  "string \<Rightarrow> (SynthesisResult \<Rightarrow> SynthesisResult) \<Rightarrow> TextToSpeech \<Rightarrow> TextToSpeech" where
  "updateResult resultId updates st =
     st\<lparr>results := map (\<lambda>result. if result_id result = resultId then updates result else result)
                       (results st)\<rparr>"

text \<open>The result that \<^verbatim>\<open>handleSynthesizeStream\<close> puts in front of the list before the stream starts.\<close>

definition newResult :: "string \<Rightarrow> string \<Rightarrow> string \<Rightarrow> string \<Rightarrow> string \<Rightarrow> SynthesisResult" where
  "newResult resultId txt prov vc ts =
     \<lparr>result_id = resultId, result_text = txt, provider = prov, voice = vc, duration = 0,
      audio_length = 0, file_size = 0, download_url = None, timestamp = ts,
      status = Some StatusPending, error = None, audio_chunks = Some [],
      stream_audio_url = None\<rparr>"

definition mimeType :: "render \<Rightarrow> string" where
  "mimeType rd = (if selectedFormat rd = ''mp3'' then ''audio/mpeg'' else ''audio/wav'')"

text \<open>\<^verbatim>\<open>result.audio_chunks || []\<close>\<close>

definition chunks_of :: "SynthesisResult \<Rightarrow> byte list list" where
  "chunks_of result = (case audio_chunks result of None \<Rightarrow> [] | Some cs \<Rightarrow> cs)"

text \<open>
  The updater passed to \<^verbatim>\<open>setResults\<close> in the \<^verbatim>\<open>audio_chunk\<close> case:
  \<^verbatim>\<open>prev.map(result => ...)\<close> with \<^verbatim>\<open>audioArray\<close> the decoded payload. For a result
  with the id it appends the chunk, builds the combined blob and its URL, starts
  (\<^verbatim>\<open>chunk_count === 1\<close>) or updates the streaming element, and returns the result with
  \<^verbatim>\<open>audio_chunks\<close>, \<^verbatim>\<open>file_size\<close> and \<^verbatim>\<open>stream_audio_url\<close> replaced. The RangeError
  branch of the copy leaves the list as it is; \<open>combine_concat\<close> shows it is never taken.
\<close>

fun ingest_chunk ::
  "render \<Rightarrow> TTSStreamEvent \<Rightarrow> string \<Rightarrow> byte list \<Rightarrow> SynthesisResult list \<Rightarrow> TextToSpeech
     \<Rightarrow> SynthesisResult list \<times> TextToSpeech" where
  "ingest_chunk rd event resultId audioArray [] st = ([], st)"
| "ingest_chunk rd event resultId audioArray (result # prev) st =
     (if result_id result = resultId then
        (let newChunks = chunks_of result @ [audioArray];
             totalSize = totalSize_of newChunks
         in case combine newChunks of
              None \<Rightarrow> (result # prev, st)
            | Some combinedArray \<Rightarrow>
                (let (audioUrl, st1) =
                       createObjectURL \<lparr>blob_bytes = combinedArray, blob_type = mimeType rd\<rparr> st;
                     st2 = (if chunk_count event = Some 1
                            then playStreamingAudio resultId audioUrl st1
                            else updateStreamingAudio rd resultId audioUrl st1);
                     (rest, st3) = ingest_chunk rd event resultId audioArray prev st2
                 in (result\<lparr>audio_chunks := Some newChunks,
                            file_size := totalSize,
                            stream_audio_url := Some audioUrl\<rparr> # rest, st3)))
      else
        (let (rest, st') = ingest_chunk rd event resultId audioArray prev st
         in (result # rest, st')))"

text \<open>The fallback text of \<^verbatim>\<open>event.error || ...\<close>, as its UTF-8 bytes.\<close>

definition unknown_error :: string where
  "unknown_error = [CHR 0xE6, CHR 0x9C, CHR 0xAA, CHR 0xE7, CHR 0x9F, CHR 0xA5,
                    CHR 0xE9, CHR 0x94, CHR 0x99, CHR 0xE8, CHR 0xAF, CHR 0xAF]"

definition error_text :: "string option \<Rightarrow> string" where
  "error_text e = (case e of None \<Rightarrow> unknown_error | Some m \<Rightarrow> if m = [] then unknown_error else m)"

text \<open>
  \<^verbatim>\<open>handleStreamEvent(event, resultId)\<close>. An \<^verbatim>\<open>audio_chunk\<close> without data, or with the
  empty string, is skipped; a payload that \<^verbatim>\<open>atob\<close> rejects is caught and logged. The
  two-second timer that clears the status line after \<^verbatim>\<open>complete\<close> is not modelled.
\<close>

definition handleStreamEvent :: "render \<Rightarrow> TTSStreamEvent \<Rightarrow> string \<Rightarrow> TextToSpeech \<Rightarrow> TextToSpeech" where
  "handleStreamEvent rd event resultId st =
     (case ev_type event of
        EvStart \<Rightarrow>
          updateResult resultId (\<lambda>r. r\<lparr>status := Some StatusStreaming\<rparr>)
            (st\<lparr>streamingStatus := SynthesisStarted (ev_provider event)\<rparr>)
      | EvAudioChunk \<Rightarrow>
          (case data event of
             None \<Rightarrow> st
           | Some d \<Rightarrow>
               if d = [] then st
               else (case atob d of
                       None \<Rightarrow> st
                     | Some audioArray \<Rightarrow>
                         (let (rs, st') = ingest_chunk rd event resultId audioArray (results st) st
                          in st'\<lparr>results := rs,
                                 streamingStatus :=
                                   ReceivingChunk (chunk_count event) (total_size event)\<rparr>)))
      | EvComplete \<Rightarrow>
          updateResult resultId (\<lambda>r. r\<lparr>status := Some StatusCompleted, duration := 0\<rparr>)
            (st\<lparr>streamingStatus := SynthesisComplete\<rparr>)
      | EvError \<Rightarrow>
          updateResult resultId
            (\<lambda>r. r\<lparr>status := Some StatusError, error := Some (error_text (ev_error event))\<rparr>)
            (st\<lparr>streamingStatus := NoStatus\<rparr>)
      | EvEnd \<Rightarrow> st\<lparr>streamingStatus := NoStatus\<rparr>
      | EvHeartbeat \<Rightarrow> st
      | EvOther t \<Rightarrow> st)"

text \<open>A stream of events handled in arrival order by one callback (one closure).\<close>

definition handle_all :: "render \<Rightarrow> string \<Rightarrow> TTSStreamEvent list \<Rightarrow> TextToSpeech \<Rightarrow> TextToSpeech" where
  "handle_all rd resultId events st = foldl (\<lambda>s event. handleStreamEvent rd event resultId s) st events"

text \<open>The component as mounted, and an \<^verbatim>\<open>audio_chunk\<close> event with its payload and count.\<close>

definition mounted :: "bool list \<Rightarrow> TextToSpeech" where
  "mounted vs =
     \<lparr>results = [], currentPlaying = None, streamingStatus = NoStatus, streamingAudio = None,
      audioRef = None, streamingAudioRef = None, detached = [], blobs = [], play_verdicts = vs\<rparr>"

definition audio_chunk_event :: "string \<Rightarrow> int \<Rightarrow> TTSStreamEvent" where
  "audio_chunk_event payload n =
     \<lparr>ev_type = EvAudioChunk, session_id = ''s'', data = Some payload, chunk_count = Some n,
      total_size = None, is_final = None, ev_error = None, ev_message = None,
      ev_provider = None, ev_voice = None, text_length = None, ev_timestamp = None\<rparr>"

text \<open>
  What an event contributes to the buffer: the decoded payload of an \<^verbatim>\<open>audio_chunk\<close>
  event that carries a non-empty \<^verbatim>\<open>data\<close> string which \<^verbatim>\<open>atob\<close> accepts.
\<close>

definition decoded :: "TTSStreamEvent \<Rightarrow> byte list option" where
  "decoded event =
     (if ev_type event = EvAudioChunk then
        (case data event of None \<Rightarrow> None | Some d \<Rightarrow> if d = [] then None else atob d)
      else None)"

text \<open>The bytes behind a result's \<^verbatim>\<open>stream_audio_url\<close>: what an element playing it gets.\<close>

definition buffer_of :: "TextToSpeech \<Rightarrow> SynthesisResult \<Rightarrow> byte list option" where
  "buffer_of st r =
     (case stream_audio_url r of None \<Rightarrow> None | Some u \<Rightarrow> map_option blob_bytes (blob_at st u))"

text \<open>The branch on \<^verbatim>\<open>event.chunk_count === 1\<close> inside the updater.\<close>

definition start_or_update :: "render \<Rightarrow> TTSStreamEvent \<Rightarrow> string \<Rightarrow> url \<Rightarrow> TextToSpeech \<Rightarrow> TextToSpeech" where
  "start_or_update rd ev rid u st =
     (if chunk_count ev = Some 1 then playStreamingAudio rid u st
      else updateStreamingAudio rd rid u st)"

text \<open>The object the updater returns for a matching result.\<close>

definition with_chunk :: "SynthesisResult \<Rightarrow> byte list \<Rightarrow> url \<Rightarrow> SynthesisResult" where
  "with_chunk r b u =
     r\<lparr>audio_chunks := Some (chunks_of r @ [b]),
       file_size := sum_list (map length (chunks_of r @ [b])),
       stream_audio_url := Some u\<rparr>"

section \<open>Media elements of the document pages\<close>

text \<open>
  PPTPresentation.tsx and the document workflow each render one hidden \<^verbatim>\<open><audio>\<close>
  element and keep it in a ref; playing another page or segment assigns a new \<^verbatim>\<open>src\<close> to
  that same element. Assigning \<^verbatim>\<open>src\<close> starts the element's load algorithm, which pauses
  it and rewinds it. \<^verbatim>\<open>play()\<close> again takes the browser's verdict from a list: the
  promise rejects when the audio of the page cannot be fetched or decoded.
\<close>

record 'u media_element =
  el_src :: "'u option"
  el_paused :: bool
  el_currentTime :: real

definition set_src :: "'u \<Rightarrow> 'u media_element \<Rightarrow> 'u media_element" where
  "set_src u el = el\<lparr>el_src := Some u, el_paused := True, el_currentTime := 0\<rparr>"

definition el_pause :: "'u media_element \<Rightarrow> 'u media_element" where
  "el_pause el = el\<lparr>el_paused := True\<rparr>"

definition el_play :: "'u media_element \<Rightarrow> bool list \<Rightarrow> bool \<times> 'u media_element \<times> bool list" where
  "el_play el vs =
     (if play_verdict vs then (True, el\<lparr>el_paused := False\<rparr>, tl vs) else (False, el, tl vs))"

section \<open>The slide presentation: PPTPresentation\<close>

text \<open>\<^verbatim>\<open>slideService.getSlideAudioUrl(documentId, pageNumber)\<close>: the URL names both.\<close>

datatype slide_url = SlideAudioUrl string nat

record SlideData =
  slide_id :: string
  slide_title :: string
  slide_content :: string
  slide_image_url :: "string option"

record PPTPresentation =
  currentSlideIndex :: nat
  slides :: "SlideData list"
  isPlayingAudio :: bool
  currentAudioPage :: "nat option"
  ppt_audioRef :: "slide_url media_element option"
  ppt_play_verdicts :: "bool list"

text \<open>
  \<^verbatim>\<open>playCurrentSlideAudio()\<close>. A second click on the page that is playing pauses it.
  Otherwise the element is paused and rewound, gets the URL of the current page and is
  played; the flags are set only when \<^verbatim>\<open>play()\<close> resolves, a rejection is caught and
  reported as a warning.
\<close>

definition playCurrentSlideAudio :: "string \<Rightarrow> PPTPresentation \<Rightarrow> PPTPresentation" where
  "playCurrentSlideAudio documentId st =
     (let pageNumber = currentSlideIndex st + 1
      in if isPlayingAudio st \<and> currentAudioPage st = Some pageNumber then
           (case ppt_audioRef st of
              None \<Rightarrow> st
            | Some el \<Rightarrow> st\<lparr>isPlayingAudio := False, currentAudioPage := None,
                              ppt_audioRef := Some (el_pause el)\<rparr>)
         else
           (case ppt_audioRef st of
              None \<Rightarrow> st
            | Some el \<Rightarrow>
                (let stopped = (el_pause el)\<lparr>el_currentTime := 0\<rparr>;
                     (ok, el', vs) = el_play (set_src (SlideAudioUrl documentId pageNumber) stopped)
                                       (ppt_play_verdicts st)
                 in if ok then
                      st\<lparr>isPlayingAudio := True, currentAudioPage := Some pageNumber,
                         ppt_audioRef := Some el', ppt_play_verdicts := vs\<rparr>
                    else st\<lparr>ppt_audioRef := Some el', ppt_play_verdicts := vs\<rparr>)))"





section \<open>The document workflow: audio segments\<close>







section \<open>Waiting for the conversion: slideService.waitForPPTConversion\<close>

record SlideInfo =
  info_id :: string
  page_number :: int
  info_title :: string
  info_content :: string
  image_url :: "string option"
  thumbnail_url :: "string option"

record SlideContent =
  document_id :: string
  filename :: string
  file_path :: string
  content_download_url :: string
  content_slides :: "SlideInfo list option"

text \<open>
  What the network answers to one iteration of the loop: the slides of the document
  (\<open>None\<close>: \<^verbatim>\<open>getDocumentSlides\<close> threw), what \<^verbatim>\<open>checkImageExists\<close> returns if it is
  asked (it catches its own errors and returns \<^verbatim>\<open>false\<close>), the milliseconds the two
  requests take, and by how many milliseconds the three-second timer fires late.
\<close>

record poll =
  fetched :: "SlideContent option"
  image_exists :: bool
  fetch_ms :: nat
  head_ms :: nat
  timer_late :: nat

datatype conversion_error = ConversionTimeout

definition checkInterval :: nat where
  "checkInterval = 3000"

text \<open>
  The body of the \<^verbatim>\<open>try\<close> with its \<^verbatim>\<open>catch\<close>: the slides when the iteration returns
  them, and the time the iteration took (with the wait of \<^verbatim>\<open>checkInterval\<close> when it
  does not return).
\<close>

definition poll_once :: "poll \<Rightarrow> SlideContent option \<times> nat" where
  "poll_once p =
     (case fetched p of
        None \<Rightarrow> (None, fetch_ms p + checkInterval + timer_late p)
      | Some slideData \<Rightarrow>
          (case content_slides slideData of
             Some (firstSlide # rest) \<Rightarrow>
               (case image_url firstSlide of
                  Some u \<Rightarrow>
                    if u \<noteq> [] then
                      (if image_exists p then (Some slideData, fetch_ms p + head_ms p)
                       else (None, fetch_ms p + head_ms p + checkInterval + timer_late p))
                    else (None, fetch_ms p + checkInterval + timer_late p)
                | None \<Rightarrow> (None, fetch_ms p + checkInterval + timer_late p))
           | _ \<Rightarrow> (None, fetch_ms p + checkInterval + timer_late p)))"

text \<open>
  The \<^verbatim>\<open>while (Date.now() - startTime < maxWaitTime)\<close> loop. \<open>now\<close> is the clock when the
  condition is checked, \<open>k\<close> counts the iterations, \<open>env k\<close> is the network's answer to
  iteration \<open>k\<close>. The result carries the clock at the moment of the return or the throw.
\<close>

function wait_loop ::
  "(nat \<Rightarrow> poll) \<Rightarrow> int \<Rightarrow> nat \<Rightarrow> nat \<Rightarrow> nat \<Rightarrow> (conversion_error + SlideContent) \<times> nat" where
  "wait_loop env maxWaitTime startTime k now =
     (if int now - int startTime < maxWaitTime then
        (case poll_once (env k) of
           (Some slideData, dt) \<Rightarrow> (Inr slideData, now + dt)
         | (None, dt) \<Rightarrow> wait_loop env maxWaitTime startTime (Suc k) (now + dt))
      else (Inl ConversionTimeout, now))"
  by pat_completeness auto
termination
  apply (relation "measure (\<lambda>(env, maxWaitTime, startTime, k, now).
                     nat (maxWaitTime - (int now - int startTime)))")
   apply simp
  apply (auto simp: poll_once_def checkInterval_def split: option.splits list.splits if_splits)
  done

text \<open>\<^verbatim>\<open>waitForPPTConversion(documentId, maxWaitTime = 120000)\<close>, called at \<open>startTime\<close>.\<close>

definition waitForPPTConversion ::
  "(string \<Rightarrow> nat \<Rightarrow> poll) \<Rightarrow> string \<Rightarrow> int option \<Rightarrow> nat \<Rightarrow> (conversion_error + SlideContent) \<times> nat" where
  "waitForPPTConversion net documentId maxWaitTime startTime =
     wait_loop (net documentId) (case maxWaitTime of None \<Rightarrow> 120000 | Some m \<Rightarrow> m)
       startTime 0 startTime"

section \<open>Example inputs\<close>

text \<open>A render, the page with one pending result, and a parser that rejects one payload.\<close>

definition demo_render :: render where
  "demo_render = \<lparr>selectedFormat = ''wav'', seen_streamingAudio = None,
                   seen_currentPlaying = None, baseURL = ''http://host''\<rparr>"

definition demo_start :: TextToSpeech where
  "demo_start = (mounted [True, True])\<lparr>results := [newResult ''r1'' ''hi'' ''p'' ''v'' ''t'']\<rparr>"

definition demo_parse :: "string \<Rightarrow> string option" where
  "demo_parse s = (if s = ''{oops'' then None else Some s)"

text \<open>An \<^verbatim>\<open>error\<close> event with its message.\<close>

definition error_event :: "string \<Rightarrow> TTSStreamEvent" where
  "error_event msg =
     \<lparr>ev_type = EvError, session_id = ''s'', data = None, chunk_count = None,
      total_size = None, is_final = None, ev_error = Some msg, ev_message = None,
      ev_provider = None, ev_voice = None, text_length = None, ev_timestamp = None\<rparr>"

text \<open>The component after the first chunk of \<^verbatim>\<open>r1\<close> has been handled.\<close>

definition demo_streamed :: TextToSpeech where
  "demo_streamed = handleStreamEvent demo_render (audio_chunk_event ''SGVsbG8='' 1) ''r1'' demo_start"

text \<open>An earlier, non-streamed result with a download URL.\<close>

definition older_result :: SynthesisResult where
  "older_result = (newResult ''r0'' ''old'' ''p'' ''v'' ''t'')
                    \<lparr>download_url := Some ''/api/tts/download/a.wav'', status := None,
                     audio_chunks := None\<rparr>"





text \<open>A server whose every status request fails after 100 ms.\<close>

definition failing_net :: "string \<Rightarrow> nat \<Rightarrow> poll" where
  "failing_net documentId k =
     \<lparr>fetched = None, image_exists = False, fetch_ms = 100, head_ms = 0, timer_late = 0\<rparr>"


section \<open>Lemmas on the frame parser\<close>

lemma split_nl_ne: "split_nl xs \<noteq> []"
  by (induction xs) (auto split: list.splits)

lemma split_nl_append:
  "split_nl (xs @ ys) = butlast (split_nl xs) @ split_nl (last (split_nl xs) @ ys)"
  by (induction xs) (auto split: list.splits simp: split_nl_ne)

lemma split_nl_plain: "no_newline l \<Longrightarrow> split_nl l = [l]"
  by (induction l) (auto simp: no_newline_def)

lemma last_split_plain: "no_newline (last (split_nl xs))"
  by (induction xs) (auto simp: no_newline_def split_nl_ne split: list.splits)

lemma process_lines_append:
  "process_lines parse (xs @ ys) = process_lines parse xs @ process_lines parse ys"
  by (induction xs) (auto split: option.splits)

lemma read_fold:
  "no_newline b \<Longrightarrow>
   foldl (read_step parse) (b, evs) reads =
     (last (split_nl (b @ concat reads)),
      evs @ process_lines parse (butlast (split_nl (b @ concat reads))))"
proof (induction reads arbitrary: b evs)
  case Nil
  then show ?case by (simp add: split_nl_plain)
next
  case (Cons r reads)
  let ?b = "last (split_nl (b @ r))"
  have nb: "no_newline ?b" by (rule last_split_plain)
  have sp: "split_nl ((b @ r) @ concat reads)
      = butlast (split_nl (b @ r)) @ split_nl (?b @ concat reads)"
    by (rule split_nl_append)
  have step: "read_step parse (b, evs) r
      = (?b, evs @ process_lines parse (butlast (split_nl (b @ r))))"
    by (simp add: read_step_def pop_or_empty_def split_nl_ne Let_def)
  show ?case
    using Cons.IH[OF nb] sp
    by (simp add: step process_lines_append split_nl_ne butlast_append)
qed

text \<open>The result depends on the reads only through their concatenation.\<close>

lemma read_loop_stream:
  "read_loop parse reads =
     (last (split_nl (concat reads)),
      process_lines parse (butlast (split_nl (concat reads))))"
  using read_fold[of "[]" parse "[]" reads]
  by (simp add: read_loop_def no_newline_def)

lemma split_stream_of:
  "list_all no_newline lines \<Longrightarrow> split_nl (stream_of lines @ rest) = lines @ split_nl rest"
proof (induction lines)
  case Nil
  then show ?case by (simp add: stream_of_def)
next
  case (Cons l ls)
  have "split_nl (l @ CHR 0x0A # xs) = l # split_nl xs" if "no_newline l" for xs
    using that by (induction l) (auto simp: no_newline_def split: list.splits)
  with Cons show ?case by (simp add: stream_of_def)
qed

text \<open>
  Claim C7. Let the stream consist of newline-terminated records \<open>lines\<close> followed by an
  unterminated remainder \<open>rest\<close>, and let it arrive cut into reads at arbitrary places.
  Then the parser has handed every record to the decoding branch exactly once, in order,
  whatever the cuts were, and the unterminated remainder is what the buffer retains:
  a record split across reads is reassembled before it is parsed, and none is lost or
  parsed twice.
\<close>

theorem split_records_reassembled:
  assumes "list_all no_newline lines" and "no_newline rest"
      and "concat reads = stream_of lines @ rest"
  shows "read_loop parse reads = (rest, process_lines parse lines)"
proof -
  have "split_nl (concat reads) = lines @ [rest]"
    using assms by (simp add: split_stream_of split_nl_plain)
  then show ?thesis
    by (simp add: read_loop_stream)
qed

text \<open>Two records and a started third, cut inside the marker and inside the payloads.\<close>

theorem split_records_reassembled_witness:
  "read_loop Some [''data: he'', ''llo\<newline>da'', ''ta: world\<newline>data: x'']
     = (''data: x'', [''hello'', ''world''])"
proof -
  have h1: "list_all no_newline [''data: hello'', ''data: world'']"
    by (simp add: no_newline_def)
  have h2: "no_newline ''data: x''" by (simp add: no_newline_def)
  have h3: "concat [''data: he'', ''llo\<newline>da'', ''ta: world\<newline>data: x'']
      = stream_of [''data: hello'', ''data: world''] @ ''data: x''"
    by (simp add: stream_of_def)
  show ?thesis
    using split_records_reassembled[OF h1 h2 h3, of Some]
    by (simp add: startsWith_def)
qed

section \<open>A malformed record\<close>

lemma no_newline_data_line: "no_newline p \<Longrightarrow> no_newline (data_line p)"
  by (simp add: no_newline_def data_line_def)

lemma process_data_lines:
  "map parse ps = map Some es \<Longrightarrow> process_lines parse (map data_line ps) = es"
proof (induction ps arbitrary: es)
  case Nil
  then show ?case by simp
next
  case (Cons p ps)
  then obtain e es' where "es = e # es'" "parse p = Some e" "map parse ps = map Some es'"
    by (cases es) auto
  with Cons.IH show ?case
    by (simp add: data_line_def startsWith_def)
qed

lemma process_bad_line: "parse bad = None \<Longrightarrow> process_lines parse [data_line bad] = []"
  by (simp add: data_line_def startsWith_def)

text \<open>
  Claim C8. A stream of \<^verbatim>\<open>data: \<close> records in which one payload \<open>bad\<close> fails to parse,
  between payloads that parse to the events \<open>es1\<close> and \<open>es2\<close>: whatever the reads are,
  the callback receives exactly \<open>es1\<close> followed by \<open>es2\<close>. The malformed record is
  dropped and every well-formed event, also those after it, is delivered.
\<close>

theorem malformed_record_skipped:
  assumes "map parse ps1 = map Some es1" and "map parse ps2 = map Some es2"
      and "parse bad = None"
      and "list_all no_newline (ps1 @ bad # ps2)"
      and "concat reads = stream_of (map data_line (ps1 @ bad # ps2))"
  shows "snd (read_loop parse reads) = es1 @ es2"
proof -
  have nl: "list_all no_newline (map data_line (ps1 @ bad # ps2))"
    using assms(4) by (auto simp: list_all_iff no_newline_data_line)
  have "split_nl (concat reads) = map data_line (ps1 @ bad # ps2) @ [[]]"
    using split_stream_of[OF nl, of "[]"] assms(5) by simp
  then have "read_loop parse reads = ([], process_lines parse (map data_line (ps1 @ bad # ps2)))"
    by (simp only: read_loop_stream butlast_snoc last_snoc)
  moreover have "process_lines parse (map data_line (ps1 @ bad # ps2))
      = process_lines parse (map data_line ps1) @ process_lines parse [data_line bad]
        @ process_lines parse (map data_line ps2)"
    using process_lines_append[of parse "map data_line ps1" "[data_line bad] @ map data_line ps2"]
      process_lines_append[of parse "[data_line bad]" "map data_line ps2"]
    by (simp del: process_lines.simps)
  moreover have "process_lines parse [data_line bad] = []"
    using assms(3) by (rule process_bad_line)
  ultimately show ?thesis
    by (simp add: process_data_lines[OF assms(1)] process_data_lines[OF assms(2)]
        del: process_lines.simps)
qed

text \<open>The malformed record is itself split across the two reads.\<close>

theorem malformed_record_skipped_witness:
  "snd (read_loop demo_parse [''data: a\<newline>data: {oo'', ''ps\<newline>data: b\<newline>'']) = [''a'', ''b'']"
proof -
  have h1: "map demo_parse [''a''] = map Some [''a'']" by (simp add: demo_parse_def)
  have h2: "map demo_parse [''b''] = map Some [''b'']" by (simp add: demo_parse_def)
  have h3: "demo_parse ''{oops'' = None" by (simp add: demo_parse_def)
  have h4: "list_all no_newline ([''a''] @ ''{oops'' # [''b''])" by (simp add: no_newline_def)
  have h5: "concat [''data: a\<newline>data: {oo'', ''ps\<newline>data: b\<newline>'']
      = stream_of (map data_line ([''a''] @ ''{oops'' # [''b'']))"
    by (simp add: stream_of_def data_line_def)
  show ?thesis
    using malformed_record_skipped[OF h1 h2 h3 h4 h5] by simp
qed

section \<open>Lemmas on chunk accumulation\<close>

text \<open>The copy loop never throws and produces the concatenation of the chunks.\<close>

lemma totalSize_sum: "foldl (\<lambda>sum chunk. sum + length chunk) n cs = n + sum_list (map length cs)"
  by (induction cs arbitrary: n) auto

lemma totalSize_of_sum: "totalSize_of cs = sum_list (map length cs)"
  by (simp add: totalSize_of_def totalSize_sum)

lemma copy_chunks_concat:
  "length arr = offset + sum_list (map length cs) + k \<Longrightarrow>
   copy_chunks arr offset cs = Some (take offset arr @ concat cs @ drop (offset + sum_list (map length cs)) arr)"
proof (induction cs arbitrary: arr offset)
  case Nil
  then show ?case by simp
next
  case (Cons c cs)
  let ?arr = "take offset arr @ c @ drop (offset + length c) arr"
  have len: "length ?arr = (offset + length c) + sum_list (map length cs) + k"
    using Cons.prems by simp
  have set: "uint8_set arr c offset = Some ?arr"
    using Cons.prems by (simp add: uint8_set_def)
  have tk: "take (offset + length c) ?arr = take offset arr @ c"
    using Cons.prems by simp
  have dr: "drop (offset + length c + sum_list (map length cs)) ?arr
      = drop (offset + (length c + sum_list (map length cs))) arr"
    using Cons.prems by (simp add: add.assoc add.commute add.left_commute)
  have "copy_chunks arr offset (c # cs) = copy_chunks ?arr (offset + length c) cs"
    by (simp add: set)
  also have "\<dots> = Some (take (offset + length c) ?arr @ concat cs
        @ drop (offset + length c + sum_list (map length cs)) ?arr)"
    by (rule Cons.IH[OF len])
  also have "\<dots> = Some (take offset arr @ concat (c # cs)
        @ drop (offset + sum_list (map length (c # cs))) arr)"
    by (simp only: tk dr) simp
  finally show ?case .
qed

lemma combine_concat: "combine cs = Some (concat cs)"
  using copy_chunks_concat[of "replicate (totalSize_of cs) 0" 0 cs 0]
  by (simp add: combine_def totalSize_of_sum)

lemma playStreamingAudio_frame:
  "results (playStreamingAudio rid u st) = results st"
  "blobs (playStreamingAudio rid u st) = blobs st"
  "streamingStatus (playStreamingAudio rid u st) = streamingStatus st"
  by (simp_all add: playStreamingAudio_def Let_def split: prod.splits)

lemma updateStreamingAudio_frame:
  "results (updateStreamingAudio rd rid u st) = results st"
  "blobs (updateStreamingAudio rd rid u st) = blobs st"
  "streamingStatus (updateStreamingAudio rd rid u st) = streamingStatus st"
  "play_verdicts (updateStreamingAudio rd rid u st) = play_verdicts st"
  by (simp_all add: updateStreamingAudio_def Let_def split: option.splits)

lemma ingest_nomatch:
  "list_all (\<lambda>x. result_id x \<noteq> rid) rs \<Longrightarrow> ingest_chunk rd ev rid arr rs st = (rs, st)"
  by (induction rs) auto

lemma ingest_unique:
  assumes "list_all (\<lambda>x. result_id x \<noteq> result_id r) pre"
      and "list_all (\<lambda>x. result_id x \<noteq> result_id r) post"
  shows "ingest_chunk rd ev (result_id r) b (pre @ r # post) st =
     (pre @ with_chunk r b (BlobUrl (length (blobs st))) # post,
      start_or_update rd ev (result_id r) (BlobUrl (length (blobs st)))
        (st\<lparr>blobs := blobs st @ [\<lparr>blob_bytes = concat (chunks_of r @ [b]), blob_type = mimeType rd\<rparr>]\<rparr>))"
  using assms(1)
proof (induction pre)
  case Nil
  show ?case
    using assms(2)
    by (simp add: combine_concat totalSize_of_sum createObjectURL_def ingest_nomatch
        start_or_update_def with_chunk_def Let_def)
next
  case (Cons p pre)
  then show ?case by simp
qed

lemma handle_chunk_unique:
  assumes dec: "decoded ev = Some b"
      and res: "results st = pre @ r # post"
      and pre: "list_all (\<lambda>x. result_id x \<noteq> result_id r) pre"
      and post: "list_all (\<lambda>x. result_id x \<noteq> result_id r) post"
  shows "handleStreamEvent rd ev (result_id r) st =
     (start_or_update rd ev (result_id r) (BlobUrl (length (blobs st)))
        (st\<lparr>blobs := blobs st @ [\<lparr>blob_bytes = concat (chunks_of r @ [b]), blob_type = mimeType rd\<rparr>]\<rparr>))
       \<lparr>results := pre @ with_chunk r b (BlobUrl (length (blobs st))) # post,
        streamingStatus := ReceivingChunk (chunk_count ev) (total_size ev)\<rparr>"
proof -
  from dec obtain d where ty: "ev_type ev = EvAudioChunk" and d: "data ev = Some d" "d \<noteq> []" "atob d = Some b"
    by (auto simp: decoded_def split: if_splits option.splits)
  show ?thesis
    by (simp add: handleStreamEvent_def ty d res ingest_unique[OF pre post])
qed

lemma start_or_update_frame:
  "results (start_or_update rd ev rid u st) = results st"
  "blobs (start_or_update rd ev rid u st) = blobs st"
  by (simp_all add: start_or_update_def playStreamingAudio_frame updateStreamingAudio_frame)

lemma handle_chunk_results:
  assumes "decoded ev = Some b" "results st = pre @ r # post"
      "list_all (\<lambda>x. result_id x \<noteq> result_id r) pre" "list_all (\<lambda>x. result_id x \<noteq> result_id r) post"
  shows "results (handleStreamEvent rd ev (result_id r) st)
           = pre @ with_chunk r b (BlobUrl (length (blobs st))) # post"
    and "blobs (handleStreamEvent rd ev (result_id r) st)
           = blobs st @ [\<lparr>blob_bytes = concat (chunks_of r @ [b]), blob_type = mimeType rd\<rparr>]"
  by (simp_all add: handle_chunk_unique[OF assms] start_or_update_frame)

lemma with_chunk_simps:
  "result_id (with_chunk r b u) = result_id r"
  "chunks_of (with_chunk r b u) = chunks_of r @ [b]"
  "audio_chunks (with_chunk r b u) = Some (chunks_of r @ [b])"
  "file_size (with_chunk r b u) = sum_list (map length (chunks_of r @ [b]))"
  "stream_audio_url (with_chunk r b u) = Some u"
  by (simp_all add: with_chunk_def chunks_of_def)

lemma handle_all_snoc:
  "handle_all rd rid (evs @ [e]) st = handleStreamEvent rd e rid (handle_all rd rid evs st)"
  by (simp add: handle_all_def)

lemma handle_all_accumulates:
  assumes res: "results st = pre @ r # post"
      and pre: "list_all (\<lambda>x. result_id x \<noteq> result_id r) pre"
      and post: "list_all (\<lambda>x. result_id x \<noteq> result_id r) post"
  shows "map decoded evs = map Some bs \<Longrightarrow>
     (let st' = handle_all rd (result_id r) evs st; r' = results st' ! length pre
      in results st' = pre @ r' # post \<and>
         result_id r' = result_id r \<and>
         chunks_of r' = chunks_of r @ bs \<and>
         (evs \<noteq> [] \<longrightarrow>
            audio_chunks r' = Some (chunks_of r @ bs) \<and>
            file_size r' = sum_list (map length (chunks_of r @ bs)) \<and>
            buffer_of st' r' = Some (concat (chunks_of r @ bs))))"
proof (induction evs arbitrary: bs rule: rev_induct)
  case Nil
  then show ?case by (simp add: handle_all_def res)
next
  case (snoc e evs)
  from snoc.prems obtain bs0 b where bs: "bs = bs0 @ [b]"
      and m: "map decoded evs = map Some bs0" and dec: "decoded e = Some b"
    by (cases bs rule: rev_cases) auto
  let ?s = "handle_all rd (result_id r) evs st"
  let ?r = "results ?s ! length pre"
  from snoc.IH[OF m] have shape: "results ?s = pre @ ?r # post" and rid: "result_id ?r = result_id r"
      and ch: "chunks_of ?r = chunks_of r @ bs0"
    by (simp_all add: Let_def)
  have pre': "list_all (\<lambda>x. result_id x \<noteq> result_id ?r) pre"
    and post': "list_all (\<lambda>x. result_id x \<noteq> result_id ?r) post"
    using pre post rid by simp_all
  let ?s' = "handleStreamEvent rd e (result_id ?r) ?s"
  let ?u = "BlobUrl (length (blobs ?s))"
  have r1: "results ?s' = pre @ with_chunk ?r b ?u # post"
    and b1: "blobs ?s' = blobs ?s @ [\<lparr>blob_bytes = concat (chunks_of ?r @ [b]), blob_type = mimeType rd\<rparr>]"
    using handle_chunk_results[OF dec shape pre' post'] by simp_all
  have nth: "results ?s' ! length pre = with_chunk ?r b ?u"
    by (simp add: r1)
  have buf: "buffer_of ?s' (with_chunk ?r b ?u) = Some (concat (chunks_of ?r @ [b]))"
    by (simp add: buffer_of_def with_chunk_simps blob_at_def b1)
  have eq: "handle_all rd (result_id r) (evs @ [e]) st = ?s'"
    by (simp add: handle_all_snoc rid)
  show ?case
    unfolding eq Let_def nth
    using r1 buf by (simp add: with_chunk_simps ch bs rid)
qed

section \<open>Accumulation of audio chunks\<close>

lemma atob_Hello: "atob ''SGVsbG8='' = Some [0x48, 0x65, 0x6C, 0x6C, 0x6F]"
  by code_simp

lemma atob_World: "atob ''V29ybGQ='' = Some [0x57, 0x6F, 0x72, 0x6C, 0x64]"
  by code_simp

lemma decoded_chunk_event:
  "payload \<noteq> [] \<Longrightarrow> decoded (audio_chunk_event payload n) = atob payload"
  by (simp add: decoded_def audio_chunk_event_def)

text \<open>
  Claim C2. A result \<open>r\<close> that occurs once in the list receives the \<^verbatim>\<open>audio_chunk\<close> events
  \<open>evs\<close>, whose payloads decode to \<open>bs\<close> and whose sequence numbers \<open>ns\<close> are strictly
  increasing. Afterwards its \<^verbatim>\<open>audio_chunks\<close> are the previous chunks followed by \<open>bs\<close>
  in order, its \<^verbatim>\<open>file_size\<close> is the sum of the chunk lengths, and the blob behind its
  \<^verbatim>\<open>stream_audio_url\<close> is the concatenation of the chunks; the other results keep their
  places.
\<close>

theorem accumulate_increasing:
  assumes "results st = pre @ r # post"
      and "list_all (\<lambda>x. result_id x \<noteq> result_id r) (pre @ post)"
      and "evs \<noteq> []"
      and "map decoded evs = map Some bs"
      and "map chunk_count evs = map Some ns"
      and "sorted_wrt (<) ns"
  shows "(let st' = handle_all rd (result_id r) evs st; r' = results st' ! length pre
      in results st' = pre @ r' # post \<and>
         audio_chunks r' = Some (chunks_of r @ bs) \<and>
         file_size r' = sum_list (map length (chunks_of r @ bs)) \<and>
         buffer_of st' r' = Some (concat (chunks_of r @ bs)))"
proof -
  have pre: "list_all (\<lambda>x. result_id x \<noteq> result_id r) pre"
    and post: "list_all (\<lambda>x. result_id x \<noteq> result_id r) post"
    using assms(2) by simp_all
  show ?thesis
    using handle_all_accumulates[OF assms(1) pre post assms(4), of rd] assms(3)
    by (simp add: Let_def)
qed

text \<open>The payloads of \<^verbatim>\<open>Hello\<close> and \<^verbatim>\<open>World\<close> with sequence numbers 1 and 2.\<close>

theorem accumulate_increasing_witness:
  "(let st' = handle_all demo_render ''r1''
                [audio_chunk_event ''SGVsbG8='' 1, audio_chunk_event ''V29ybGQ='' 2] demo_start;
        r' = results st' ! 0
    in results st' = [r'] \<and>
       audio_chunks r' = Some [[0x48, 0x65, 0x6C, 0x6C, 0x6F], [0x57, 0x6F, 0x72, 0x6C, 0x64]] \<and>
       file_size r' = 10 \<and>
       buffer_of st' r' = Some [0x48, 0x65, 0x6C, 0x6C, 0x6F, 0x57, 0x6F, 0x72, 0x6C, 0x64])"
proof -
  let ?r = "newResult ''r1'' ''hi'' ''p'' ''v'' ''t''"
  have h1: "results demo_start = [] @ ?r # []"
    by (simp add: demo_start_def mounted_def)
  have h2: "list_all (\<lambda>x. result_id x \<noteq> result_id ?r) ([] @ [])" by simp
  have h3: "[audio_chunk_event ''SGVsbG8='' 1, audio_chunk_event ''V29ybGQ='' 2] \<noteq> []" by simp
  have h4: "map decoded [audio_chunk_event ''SGVsbG8='' 1, audio_chunk_event ''V29ybGQ='' 2]
      = map Some [[0x48, 0x65, 0x6C, 0x6C, 0x6F], [0x57, 0x6F, 0x72, 0x6C, 0x64]]"
    by (simp add: decoded_chunk_event atob_Hello atob_World)
  have h5: "map chunk_count [audio_chunk_event ''SGVsbG8='' 1, audio_chunk_event ''V29ybGQ='' 2]
      = map Some [1, 2]"
    by (simp add: audio_chunk_event_def)
  have h6: "sorted_wrt (<) [1, 2 :: int]" by simp
  have id: "result_id ?r = ''r1''" by (simp add: newResult_def)
  have ch: "chunks_of ?r = []" by (simp add: newResult_def chunks_of_def)
  show ?thesis
    using accumulate_increasing[OF h1 h2 h3 h4 h5 h6, of demo_render]
    by (simp add: id ch Let_def)
qed

text \<open>
  Claim C1 (as amended). The handler keeps no last accepted sequence number and compares
  none: an \<^verbatim>\<open>audio_chunk\<close> event whose payload decodes is appended to the result with
  the id, whatever value \<open>n\<close> its \<^verbatim>\<open>chunk_count\<close> has. The chunk list grows by the
  decoded bytes, \<^verbatim>\<open>file_size\<close> becomes the sum of the chunk lengths and
  \<^verbatim>\<open>stream_audio_url\<close> a fresh blob URL; the other results are unchanged.
\<close>

theorem chunk_appended_any_sequence:
  assumes "decoded ev = Some b"
      and "results st = pre @ r # post"
      and "list_all (\<lambda>x. result_id x \<noteq> result_id r) (pre @ post)"
  shows "results (handleStreamEvent rd (ev\<lparr>chunk_count := n\<rparr>) (result_id r) st) =
           pre @ r\<lparr>audio_chunks := Some (chunks_of r @ [b]),
                   file_size := sum_list (map length (chunks_of r @ [b])),
                   stream_audio_url := Some (BlobUrl (length (blobs st)))\<rparr> # post"
proof -
  have dec: "decoded (ev\<lparr>chunk_count := n\<rparr>) = Some b"
    using assms(1) by (simp add: decoded_def split: if_splits)
  have pre: "list_all (\<lambda>x. result_id x \<noteq> result_id r) pre"
    and post: "list_all (\<lambda>x. result_id x \<noteq> result_id r) post"
    using assms(3) by simp_all
  show ?thesis
    using handle_chunk_results(1)[OF dec assms(2) pre post, of rd]
    by (simp add: with_chunk_def)
qed

text \<open>The same payload once more, with the sequence number 1 it already had.\<close>

theorem chunk_appended_any_sequence_witness:
  "map audio_chunks
     (results (handleStreamEvent demo_render ((audio_chunk_event ''SGVsbG8='' 1)\<lparr>chunk_count := Some 1\<rparr>) ''r1''
        (demo_start\<lparr>results := [(newResult ''r1'' ''hi'' ''p'' ''v'' ''t'')
                                    \<lparr>audio_chunks := Some [[0x48, 0x65, 0x6C, 0x6C, 0x6F]],
                                     file_size := 5\<rparr>]\<rparr>)))
   = [Some [[0x48, 0x65, 0x6C, 0x6C, 0x6F], [0x48, 0x65, 0x6C, 0x6C, 0x6F]]]"
proof -
  let ?r = "(newResult ''r1'' ''hi'' ''p'' ''v'' ''t'')
              \<lparr>audio_chunks := Some [[0x48, 0x65, 0x6C, 0x6C, 0x6F]], file_size := 5\<rparr>"
  let ?st = "demo_start\<lparr>results := [?r]\<rparr>"
  have h1: "decoded (audio_chunk_event ''SGVsbG8='' 1) = Some [0x48, 0x65, 0x6C, 0x6C, 0x6F]"
    by (simp add: decoded_chunk_event atob_Hello)
  have h2: "results ?st = [] @ ?r # []" by simp
  have h3: "list_all (\<lambda>x. result_id x \<noteq> result_id ?r) ([] @ [])" by simp
  have id: "result_id ?r = ''r1''" by (simp add: newResult_def)
  have ch: "chunks_of ?r = [[0x48, 0x65, 0x6C, 0x6C, 0x6F]]" by (simp add: chunks_of_def)
  show ?thesis
    using chunk_appended_any_sequence[OF h1 h2 h3, of demo_render "Some 1"]
    by (simp add: id ch)
qed

text \<open>
  Sequence number 1 ingested twice: the second copy is appended as well, the size
  doubles and the result changes.
\<close>

theorem duplicate_chunk_counterexample:
  "(let st1 = handleStreamEvent demo_render (audio_chunk_event ''SGVsbG8='' 1) ''r1'' demo_start;
        st2 = handleStreamEvent demo_render (audio_chunk_event ''SGVsbG8='' 1) ''r1'' st1
    in map file_size (results st1) = [5] \<and>
       map file_size (results st2) = [10] \<and>
       map audio_chunks (results st2)
         = [Some [[0x48, 0x65, 0x6C, 0x6C, 0x6F], [0x48, 0x65, 0x6C, 0x6C, 0x6F]]] \<and>
       results st2 \<noteq> results st1)"
proof -
  let ?r = "newResult ''r1'' ''hi'' ''p'' ''v'' ''t''"
  let ?e = "audio_chunk_event ''SGVsbG8='' 1"
  let ?hello = "[0x48, 0x65, 0x6C, 0x6C, 0x6F] :: byte list"
  have dec: "decoded ?e = Some ?hello"
    by (simp add: decoded_chunk_event atob_Hello)
  have id: "result_id ?r = ''r1''" by (simp add: newResult_def)
  have h1: "results demo_start = [] @ ?r # []"
    by (simp add: demo_start_def mounted_def)
  have r1: "results (handleStreamEvent demo_render ?e ''r1'' demo_start)
      = [with_chunk ?r ?hello (BlobUrl (length (blobs demo_start)))]"
    using handle_chunk_results(1)[OF dec h1, of demo_render] by (simp add: id)
  let ?s1 = "handleStreamEvent demo_render ?e ''r1'' demo_start"
  let ?r1 = "with_chunk ?r ?hello (BlobUrl (length (blobs demo_start)))"
  have id1: "result_id ?r1 = ''r1''" by (simp add: with_chunk_simps id)
  have h2: "results ?s1 = [] @ ?r1 # []" using r1 by simp
  have r2: "results (handleStreamEvent demo_render ?e ''r1'' ?s1)
      = [with_chunk ?r1 ?hello (BlobUrl (length (blobs ?s1)))]"
    using handle_chunk_results(1)[OF dec h2, of demo_render] by (simp add: id1)
  have ch: "chunks_of ?r = []" by (simp add: newResult_def chunks_of_def)
  let ?s2 = "handleStreamEvent demo_render ?e ''r1'' ?s1"
  have fs1: "map file_size (results ?s1) = [5]"
    by (simp add: r1 with_chunk_simps ch)
  have fs2: "map file_size (results ?s2) = [10]"
    by (simp add: r2 with_chunk_simps ch)
  have ac2: "map audio_chunks (results ?s2) = [Some [?hello, ?hello]]"
    by (simp add: r2 with_chunk_simps ch)
  have ne: "results ?s2 \<noteq> results ?s1"
  proof
    assume "results ?s2 = results ?s1"
    then have "map file_size (results ?s2) = map file_size (results ?s1)" by simp
    with fs1 fs2 show False by simp
  qed
  show ?thesis
    unfolding Let_def using fs1 fs2 ac2 ne by simp
qed

section \<open>Terminal events\<close>

text \<open>
  Claim C10. A \<^verbatim>\<open>complete\<close>, \<^verbatim>\<open>end\<close> or \<^verbatim>\<open>error\<close> event leaves every result's
  \<^verbatim>\<open>audio_chunks\<close>, \<^verbatim>\<open>file_size\<close> and \<^verbatim>\<open>stream_audio_url\<close> as they are; the results
  differ from the previous ones at most in \<^verbatim>\<open>status\<close>, \<^verbatim>\<open>error\<close> and \<^verbatim>\<open>duration\<close>,
  and only where the id is the event's result id; outside the result list only the
  status line changes.
\<close>

theorem terminal_events_keep_audio:
  assumes "ev_type ev = EvComplete \<or> ev_type ev = EvEnd \<or> ev_type ev = EvError"
  shows "(let st' = handleStreamEvent rd ev rid st
          in map audio_chunks (results st') = map audio_chunks (results st) \<and>
             map file_size (results st') = map file_size (results st) \<and>
             map stream_audio_url (results st') = map stream_audio_url (results st) \<and>
             map (\<lambda>r. r\<lparr>status := None, error := None, duration := 0\<rparr>) (results st')
               = map (\<lambda>r. r\<lparr>status := None, error := None, duration := 0\<rparr>) (results st) \<and>
             list_all2 (\<lambda>r' r. result_id r = rid \<or> r' = r) (results st') (results st) \<and>
             st'\<lparr>results := results st, streamingStatus := streamingStatus st\<rparr> = st)"
  using assms
  by (auto simp: handleStreamEvent_def updateResult_def Let_def list_all2_map1 list_all2_same
           intro!: list.rel_refl_strong)

text \<open>The example state, computed.\<close>

lemma demo_streamed_eq:
  "demo_streamed =
     \<lparr>results = [(newResult ''r1'' ''hi'' ''p'' ''v'' ''t'')
                   \<lparr>file_size := 5, audio_chunks := Some [[0x48, 0x65, 0x6C, 0x6C, 0x6F]],
                    stream_audio_url := Some (BlobUrl 0)\<rparr>],
      currentPlaying = None, streamingStatus = ReceivingChunk (Some 1) None, streamingAudio = None,
      audioRef = None,
      streamingAudioRef = Some \<lparr>src = BlobUrl 0, paused = False, currentTime = 0,
                                 handlers = StreamingHandlers ''r1''\<rparr>,
      detached = [],
      blobs = [\<lparr>blob_bytes = [0x48, 0x65, 0x6C, 0x6C, 0x6F], blob_type = ''audio/wav''\<rparr>],
      play_verdicts = [True]\<rparr>"
proof -
  let ?r = "newResult ''r1'' ''hi'' ''p'' ''v'' ''t''"
  have h1: "decoded (audio_chunk_event ''SGVsbG8='' 1) = Some [0x48, 0x65, 0x6C, 0x6C, 0x6F]"
    by (simp add: decoded_chunk_event atob_Hello)
  have h2: "results demo_start = [] @ ?r # []" by (simp add: demo_start_def)
  have id: "result_id ?r = ''r1''" by (simp add: newResult_def)
  have cc: "chunk_count (audio_chunk_event ''SGVsbG8='' 1) = Some 1"
      "total_size (audio_chunk_event ''SGVsbG8='' 1) = None"
    by (simp_all add: audio_chunk_event_def)
  have ch: "chunks_of ?r = []" by (simp add: newResult_def chunks_of_def)
  show ?thesis
    unfolding demo_streamed_def
    using handle_chunk_unique[OF h1 h2, of demo_render]
    by (simp add: id cc ch start_or_update_def playStreamingAudio_def play_def play_verdict_def
        new_Audio_def drop_ref_def with_chunk_def mimeType_def demo_render_def
        demo_start_def mounted_def)
qed

text \<open>An \<^verbatim>\<open>error\<close> event after one chunk: the chunk, its size and its URL are still there.\<close>

theorem terminal_events_keep_audio_witness:
  "(let st' = handleStreamEvent demo_render (error_event ''boom'') ''r1'' demo_streamed
    in map audio_chunks (results st') = [Some [[0x48, 0x65, 0x6C, 0x6C, 0x6F]]] \<and>
       map file_size (results st') = [5] \<and>
       map stream_audio_url (results st') = [Some (BlobUrl 0)] \<and>
       map status (results st') = [Some StatusError] \<and>
       map error (results st') = [Some ''boom''])"
proof -
  have h: "ev_type (error_event ''boom'') = EvComplete \<or> ev_type (error_event ''boom'') = EvEnd
        \<or> ev_type (error_event ''boom'') = EvError"
    by (simp add: error_event_def)
  have st: "map status (results (handleStreamEvent demo_render (error_event ''boom'') ''r1'' demo_streamed))
        = [Some StatusError]"
      "map error (results (handleStreamEvent demo_render (error_event ''boom'') ''r1'' demo_streamed))
        = [Some ''boom'']"
    by (simp_all add: handleStreamEvent_def error_event_def updateResult_def demo_streamed_eq
        newResult_def error_text_def)
  show ?thesis
    using terminal_events_keep_audio[OF h, of demo_render "''r1''" demo_streamed] st
    by (simp add: Let_def demo_streamed_eq)
qed

section \<open>One playback at a time\<close>

text \<open>
  Claim C3, evaluated at the failing input. The first chunk of \<^verbatim>\<open>r1\<close> starts the
  streaming element; then the play button of the older result \<^verbatim>\<open>r0\<close> is clicked.
  \<^verbatim>\<open>playAudio\<close> pauses the element of \<^verbatim>\<open>audioRef\<close> only, so the streaming element keeps
  playing beside the new one: two elements are live.
\<close>

theorem playAudio_beside_streaming:
  "(let st1 = handleStreamEvent demo_render (audio_chunk_event ''SGVsbG8='' 1) ''r1''
                (demo_start\<lparr>results := results demo_start @ [older_result]\<rparr>);
        st2 = playAudio (demo_render\<lparr>seen_currentPlaying := Some ''r1''\<rparr>) older_result st1
    in map paused (playing_elements st1) = [False] \<and>
       map_option paused (streamingAudioRef st2) = Some False \<and>
       map_option paused (audioRef st2) = Some False \<and>
       map src (playing_elements st2)
         = [HttpUrl ''http://host/api/tts/download/a.wav'', BlobUrl 0])"
proof -
  let ?r = "newResult ''r1'' ''hi'' ''p'' ''v'' ''t''"
  let ?st0 = "demo_start\<lparr>results := results demo_start @ [older_result]\<rparr>"
  have h1: "decoded (audio_chunk_event ''SGVsbG8='' 1) = Some [0x48, 0x65, 0x6C, 0x6C, 0x6F]"
    by (simp add: decoded_chunk_event atob_Hello)
  have h2: "results ?st0 = [] @ ?r # [older_result]" by (simp add: demo_start_def)
  have h3: "list_all (\<lambda>x. result_id x \<noteq> result_id ?r) [older_result]"
    by (simp add: older_result_def newResult_def)
  have cc: "chunk_count (audio_chunk_event ''SGVsbG8='' 1) = Some 1"
    by (simp add: audio_chunk_event_def)
  have id: "result_id ?r = ''r1''" by (simp add: newResult_def)
  have s1: "handleStreamEvent demo_render (audio_chunk_event ''SGVsbG8='' 1) ''r1'' ?st0
      = \<lparr>results = [with_chunk ?r [0x48, 0x65, 0x6C, 0x6C, 0x6F] (BlobUrl 0), older_result],
         currentPlaying = None,
         streamingStatus = ReceivingChunk (Some 1) (total_size (audio_chunk_event ''SGVsbG8='' 1)),
         streamingAudio = None, audioRef = None,
         streamingAudioRef = Some \<lparr>src = BlobUrl 0, paused = False, currentTime = 0,
                                    handlers = StreamingHandlers ''r1''\<rparr>,
         detached = [],
         blobs = [\<lparr>blob_bytes = concat (chunks_of ?r @ [[0x48, 0x65, 0x6C, 0x6C, 0x6F]]),
                   blob_type = mimeType demo_render\<rparr>],
         play_verdicts = [True]\<rparr>"
    using handle_chunk_unique[OF h1 h2 _ h3, of demo_render]
    by (simp add: id cc start_or_update_def playStreamingAudio_def play_def play_verdict_def
        new_Audio_def drop_ref_def demo_start_def mounted_def)
  show ?thesis
    unfolding Let_def s1
    by (simp add: playAudio_def playable_url_def older_result_def newResult_def demo_render_def
        play_def play_verdict_def new_Audio_def drop_ref_def playing_elements_def pause_def)
qed

text \<open>
  The sibling paths: \<^verbatim>\<open>playStreamingAudio\<close> pauses the elements of both refs before it
  starts its own, and \<^verbatim>\<open>stopAudio\<close> pauses both.
\<close>

lemma playStreamingAudio_stops_previous:
  "list_all paused (detached st) \<Longrightarrow>
     length (playing_elements (playStreamingAudio rid u st)) \<le> 1"
  by (cases "audioRef st"; cases "streamingAudioRef st")
     (auto simp: playStreamingAudio_def playing_elements_def drop_ref_def pause_def play_def
           list_all_iff filter_empty_conv split: prod.splits)

lemma stopAudio_stops_both:
  "playing_elements (stopAudio st) = filter (\<lambda>a. \<not> paused a) (detached st)"
  by (cases "audioRef st"; cases "streamingAudioRef st")
     (simp_all add: stopAudio_def playing_elements_def drop_ref_def pause_def)

section \<open>Later chunks and the streaming source\<close>

text \<open>
  Which of the two functions the updater calls: \<^verbatim>\<open>playStreamingAudio\<close> for
  \<^verbatim>\<open>chunk_count\<close> 1 (one call of \<^verbatim>\<open>play()\<close>), \<^verbatim>\<open>updateStreamingAudio\<close> for every other
  value, also a missing one (no call of \<^verbatim>\<open>play()\<close>).
\<close>

lemma chunk_dispatch:
  assumes "decoded ev = Some b"
      and "results st = pre @ r # post"
      and "list_all (\<lambda>x. result_id x \<noteq> result_id r) (pre @ post)"
  shows "(let audioUrl = BlobUrl (length (blobs st));
              st1 = st\<lparr>blobs := blobs st @ [\<lparr>blob_bytes = concat (chunks_of r @ [b]),
                                               blob_type = mimeType rd\<rparr>]\<rparr>;
              st' = handleStreamEvent rd ev (result_id r) st
          in (chunk_count ev = Some 1 \<longrightarrow>
                st'\<lparr>results := results st, streamingStatus := streamingStatus st\<rparr>
                  = playStreamingAudio (result_id r) audioUrl st1 \<and>
                play_verdicts st' = tl (play_verdicts st)) \<and>
             (chunk_count ev \<noteq> Some 1 \<longrightarrow>
                st'\<lparr>results := results st, streamingStatus := streamingStatus st\<rparr>
                  = updateStreamingAudio rd (result_id r) audioUrl st1 \<and>
                play_verdicts st' = play_verdicts st))"
proof -
  have pre: "list_all (\<lambda>x. result_id x \<noteq> result_id r) pre"
    and post: "list_all (\<lambda>x. result_id x \<noteq> result_id r) post"
    using assms(3) by simp_all
  note eq = handle_chunk_unique[OF assms(1) assms(2) pre post, of rd]
  show ?thesis
  proof (cases "chunk_count ev = Some 1")
    case True
    then show ?thesis
      unfolding Let_def eq
      by (simp add: start_or_update_def playStreamingAudio_def play_def split: prod.splits)
  next
    case False
    then show ?thesis
      unfolding Let_def eq
      by (simp add: start_or_update_def updateStreamingAudio_frame)
  qed
qed

text \<open>
  What \<^verbatim>\<open>updateStreamingAudio\<close> is written to do when its guard
  \<^verbatim>\<open>streamingAudio === resultId && streamingAudioRef.current\<close> holds: pause the old
  element, store a new one, and on \<^verbatim>\<open>loadeddata\<close> restore the captured position (if it is
  positive and below the new duration) and resume if the old element was playing.
\<close>

lemma swap_when_guard_holds:
  assumes "seen_streamingAudio rd = Some rid"
      and "streamingAudioRef st = Some cur"
  shows "(let t = currentTime cur;
              wasPlaying = \<not> paused cur;
              st' = loadeddata_streaming dur (updateStreamingAudio rd rid newAudioUrl st)
          in streamingAudioRef st' =
               Some \<lparr>src = newAudioUrl,
                     paused = (\<not> (wasPlaying \<and> play_verdict (play_verdicts st))),
                     currentTime = (if t > 0 \<and> before_duration t dur then t else 0),
                     handlers = UpdatedHandlers rid t wasPlaying\<rparr> \<and>
             detached st' = detached st @ [pause cur] \<and>
             play_verdicts st' = (if wasPlaying then tl (play_verdicts st) else play_verdicts st))"
  using assms
  by (simp add: updateStreamingAudio_def loadeddata_streaming_def onloadeddata_def new_Audio_def
      play_def Let_def)

text \<open>
  The guard in the page. \<^verbatim>\<open>handleSynthesizeStream\<close> mints \<^verbatim>\<open>resultId\<close> from
  \<^verbatim>\<open>Date.now()\<close> inside the click and hands \<^verbatim>\<open>synthesizeTextStreamAdvanced\<close> the callback
  \<^verbatim>\<open>(event) => handleStreamEvent(event, resultId)\<close>. That callback keeps the
  \<^verbatim>\<open>handleStreamEvent\<close>, and with it the \<^verbatim>\<open>updateStreamingAudio\<close>, of the render in
  which the button was clicked, for the whole stream. The \<^verbatim>\<open>streamingAudio\<close> of that
  render was stored before the id existed, so it is not the id, whatever \<^verbatim>\<open>onplay\<close>
  stores later. With such a render \<^verbatim>\<open>updateStreamingAudio\<close> returns at its guard, and a
  later chunk changes the result list, the status line and the blob registry only.
\<close>

lemma updateStreamingAudio_stale:
  "seen_streamingAudio rd \<noteq> Some rid \<Longrightarrow> updateStreamingAudio rd rid u st = st"
  by (simp add: updateStreamingAudio_def split: option.splits)

lemma later_chunk_no_swap:
  assumes "decoded ev = Some b"
      and "results st = pre @ r # post"
      and "list_all (\<lambda>x. result_id x \<noteq> result_id r) (pre @ post)"
      and "chunk_count ev \<noteq> Some 1"
      and "seen_streamingAudio rd \<noteq> Some (result_id r)"
  shows "(handleStreamEvent rd ev (result_id r) st)
           \<lparr>results := results st, streamingStatus := streamingStatus st, blobs := blobs st\<rparr> = st"
proof -
  have pre: "list_all (\<lambda>x. result_id x \<noteq> result_id r) pre"
    and post: "list_all (\<lambda>x. result_id x \<noteq> result_id r) post"
    using assms(3) by simp_all
  show ?thesis
    unfolding handle_chunk_unique[OF assms(1) assms(2) pre post, of rd]
    using assms(4)
    by (simp add: start_or_update_def updateStreamingAudio_stale[OF assms(5)])
qed

text \<open>
  The example: the first chunk of \<^verbatim>\<open>r1\<close> has started the element, its \<^verbatim>\<open>onplay\<close> has
  stored the id, playback has reached position \<open>t\<close>, and the second chunk arrives at the
  callback of the click (\<open>demo_render\<close>: \<^verbatim>\<open>streamingAudio\<close> was \<^verbatim>\<open>null\<close>).
\<close>

lemma demo_second_chunk:
  "handleStreamEvent demo_render (audio_chunk_event ''V29ybGQ='' 2) ''r1'' (playhead t (played_streaming demo_streamed))
     = \<lparr>results = [(newResult ''r1'' ''hi'' ''p'' ''v'' ''t'')
                   \<lparr>file_size := 10,
                    audio_chunks := Some [[0x48, 0x65, 0x6C, 0x6C, 0x6F], [0x57, 0x6F, 0x72, 0x6C, 0x64]],
                    stream_audio_url := Some (BlobUrl 1)\<rparr>],
        currentPlaying = Some ''r1'', streamingStatus = ReceivingChunk (Some 2) None,
        streamingAudio = Some ''r1'',
        audioRef = None,
        streamingAudioRef = Some \<lparr>src = BlobUrl 0, paused = False, currentTime = t,
                                   handlers = StreamingHandlers ''r1''\<rparr>,
        detached = [],
        blobs = [\<lparr>blob_bytes = [0x48, 0x65, 0x6C, 0x6C, 0x6F], blob_type = ''audio/wav''\<rparr>,
                 \<lparr>blob_bytes = [0x48, 0x65, 0x6C, 0x6C, 0x6F, 0x57, 0x6F, 0x72, 0x6C, 0x64],
                  blob_type = ''audio/wav''\<rparr>],
        play_verdicts = [True]\<rparr>"
proof -
  let ?r = "(newResult ''r1'' ''hi'' ''p'' ''v'' ''t'')
              \<lparr>file_size := 5, audio_chunks := Some [[0x48, 0x65, 0x6C, 0x6C, 0x6F]],
               stream_audio_url := Some (BlobUrl 0)\<rparr>"
  let ?st = "playhead t (played_streaming demo_streamed)"
  have h1: "decoded (audio_chunk_event ''V29ybGQ='' 2) = Some [0x57, 0x6F, 0x72, 0x6C, 0x64]"
    by (simp add: decoded_chunk_event atob_World)
  have h2: "results ?st = [] @ ?r # []"
    by (simp add: playhead_def played_streaming_def onplay_def demo_streamed_eq)
  have id: "result_id ?r = ''r1''" by (simp add: newResult_def)
  have cc: "chunk_count (audio_chunk_event ''V29ybGQ='' 2) = Some 2"
      "total_size (audio_chunk_event ''V29ybGQ='' 2) = None"
    by (simp_all add: audio_chunk_event_def)
  show ?thesis
    using handle_chunk_unique[OF h1 h2, of demo_render]
    by (simp add: id cc start_or_update_def updateStreamingAudio_def with_chunk_def
        mimeType_def demo_render_def playhead_def played_streaming_def onplay_def
        demo_streamed_eq newResult_def chunks_of_def)
qed

text \<open>
  Claim C9, evaluated at the failing input. The chunk with \<^verbatim>\<open>chunk_count\<close> 2 starts no
  new playback, as the claim says, but it does not update the live source either: the
  result gets the new blob URL, while \<^verbatim>\<open>streamingAudioRef\<close> still holds the element on the
  first URL and no element has been replaced.
\<close>

theorem later_chunk_leaves_source:
  "(let st2 = played_streaming demo_streamed;
        st3 = handleStreamEvent demo_render (audio_chunk_event ''V29ybGQ='' 2) ''r1'' st2
    in streamingAudio st2 = Some ''r1'' \<and>
       map_option src (streamingAudioRef st2) = Some (BlobUrl 0) \<and>
       map stream_audio_url (results st3) = [Some (BlobUrl 1)] \<and>
       streamingAudioRef st3 = streamingAudioRef st2 \<and>
       map_option src (streamingAudioRef st3) = Some (BlobUrl 0) \<and>
       detached st3 = [] \<and>
       play_verdicts st3 = play_verdicts st2)"
proof -
  have p0: "playhead 0 (played_streaming demo_streamed) = played_streaming demo_streamed"
    by (simp add: playhead_def played_streaming_def onplay_def demo_streamed_eq)
  show ?thesis
    using demo_second_chunk[of 0]
    unfolding p0 Let_def
    by (simp add: played_streaming_def onplay_def demo_streamed_eq)
qed

text \<open>
  Claim C4, evaluated at the failing input. A session playing at position 2 receives
  the second buffer version. The playable handle is not swapped: after the event, and
  after the browser's \<^verbatim>\<open>loadeddata\<close>, the ref holds the same element on the first blob
  (the five bytes of the first chunk), although the result's buffer now has ten.
\<close>

theorem playing_session_keeps_first_buffer:
  "(let st2 = playhead 2 (played_streaming demo_streamed);
        st3 = loadeddata_streaming (Seconds 4)
                (handleStreamEvent demo_render (audio_chunk_event ''V29ybGQ='' 2) ''r1'' st2)
    in streamingAudioRef st2 =
         Some \<lparr>src = BlobUrl 0, paused = False, currentTime = 2, handlers = StreamingHandlers ''r1''\<rparr> \<and>
       streamingAudioRef st3 = streamingAudioRef st2 \<and>
       map_option blob_bytes (blob_at st3 (BlobUrl 0)) = Some [0x48, 0x65, 0x6C, 0x6C, 0x6F] \<and>
       map (buffer_of st3) (results st3)
         = [Some [0x48, 0x65, 0x6C, 0x6C, 0x6F, 0x57, 0x6F, 0x72, 0x6C, 0x64]] \<and>
       detached st3 = [])"
  unfolding Let_def demo_second_chunk
  by (simp add: loadeddata_streaming_def onloadeddata_def playhead_def played_streaming_def
      onplay_def demo_streamed_eq blob_at_def buffer_of_def)

section \<open>Advancing to the next segment\<close>







section \<open>Waiting for the conversion\<close>

declare wait_loop.simps [simp del]

lemma timeout_elapsed:
  "fst (wait_loop env maxWaitTime startTime k now) = Inl e \<Longrightarrow>
     maxWaitTime \<le> int (snd (wait_loop env maxWaitTime startTime k now)) - int startTime"
proof (induction env maxWaitTime startTime k now rule: wait_loop.induct)
  case (1 env maxWaitTime startTime k now)
  show ?case
  proof (cases "int now - int startTime < maxWaitTime")
    case False
    then show ?thesis by (simp add: wait_loop.simps[of env maxWaitTime startTime k now])
  next
    case True
    obtain r dt where p: "poll_once (env k) = (r, dt)" by (cases "poll_once (env k)")
    show ?thesis
    proof (cases r)
      case None
      have eq: "wait_loop env maxWaitTime startTime k now
          = wait_loop env maxWaitTime startTime (Suc k) (now + dt)"
        using True p None by (simp add: wait_loop.simps[of env maxWaitTime startTime k now])
      show ?thesis
        using "1.IH"[OF True p[symmetric] None] "1.prems"
        by (simp add: eq)
    next
      case (Some sd)
      then show ?thesis
        using True p "1.prems" by (simp add: wait_loop.simps[of env maxWaitTime startTime k now])
    qed
  qed
qed

lemma poll_error: "fetched p = None \<Longrightarrow> poll_once p = (None, fetch_ms p + checkInterval + timer_late p)"
  by (simp add: poll_once_def)

lemma poll_ready:
  "fetched p = Some sd \<Longrightarrow> content_slides sd = Some (firstSlide # rest) \<Longrightarrow>
   image_url firstSlide = Some u \<Longrightarrow> u \<noteq> [] \<Longrightarrow> image_exists p \<Longrightarrow>
   poll_once p = (Some sd, fetch_ms p + head_ms p)"
  by (simp add: poll_once_def)

text \<open>
  Claim C6. \<^verbatim>\<open>waitForPPTConversion\<close> always returns, and when its result is the timeout
  error, the clock at the throw is at least \<^verbatim>\<open>maxWaitTime\<close> (120000 by default) after
  the call. An iteration whose status request throws is followed, \<^verbatim>\<open>checkInterval\<close>
  (plus the timer's lateness) later, by the next check of the same deadline. An
  iteration before the deadline that finds slides whose first image URL is present
  and fetchable returns the slides.
\<close>

theorem timeout_only_after_deadline:
  "(fst (waitForPPTConversion net documentId maxWaitTime startTime) = Inl ConversionTimeout \<longrightarrow>
      (case maxWaitTime of None \<Rightarrow> 120000 | Some m \<Rightarrow> m)
        \<le> int (snd (waitForPPTConversion net documentId maxWaitTime startTime)) - int startTime) \<and>
   (int now - int startTime < deadline \<and> fetched (env k) = None \<longrightarrow>
      wait_loop env deadline startTime k now
        = wait_loop env deadline startTime (Suc k)
            (now + fetch_ms (env k) + checkInterval + timer_late (env k))) \<and>
   (int now - int startTime < deadline \<and> fetched (env k) = Some slideData \<and>
    content_slides slideData = Some (firstSlide # rest) \<and> image_url firstSlide = Some u \<and>
    u \<noteq> [] \<and> image_exists (env k) \<longrightarrow>
      wait_loop env deadline startTime k now
        = (Inr slideData, now + fetch_ms (env k) + head_ms (env k)))"
proof (intro conjI impI)
  assume "fst (waitForPPTConversion net documentId maxWaitTime startTime) = Inl ConversionTimeout"
  then show "(case maxWaitTime of None \<Rightarrow> 120000 | Some m \<Rightarrow> m)
        \<le> int (snd (waitForPPTConversion net documentId maxWaitTime startTime)) - int startTime"
    unfolding waitForPPTConversion_def by (rule timeout_elapsed)
next
  assume "int now - int startTime < deadline \<and> fetched (env k) = None"
  then show "wait_loop env deadline startTime k now
        = wait_loop env deadline startTime (Suc k)
            (now + fetch_ms (env k) + checkInterval + timer_late (env k))"
    by (simp add: wait_loop.simps[of env deadline startTime k now] poll_error add.assoc)
next
  assume "int now - int startTime < deadline \<and> fetched (env k) = Some slideData \<and>
    content_slides slideData = Some (firstSlide # rest) \<and> image_url firstSlide = Some u \<and>
    u \<noteq> [] \<and> image_exists (env k)"
  then show "wait_loop env deadline startTime k now
        = (Inr slideData, now + fetch_ms (env k) + head_ms (env k))"
    by (simp add: wait_loop.simps[of env deadline startTime k now] poll_ready add.assoc)
qed

text \<open>A timeout of 5000 ms against a server that never answers: thrown at 6200 ms.\<close>

lemma failing_run:
  "waitForPPTConversion failing_net ''doc'' (Some 5000) 0 = (Inl ConversionTimeout, 6200)"
proof -
  let ?env = "failing_net ''doc''"
  have p: "poll_once (?env k) = (None, 3100)" for k
    by (simp add: poll_once_def failing_net_def checkInterval_def)
  have "wait_loop ?env 5000 0 0 0 = wait_loop ?env 5000 0 (Suc 0) 3100"
    by (simp add: wait_loop.simps[of ?env 5000 0 0 0] p)
  also have "\<dots> = wait_loop ?env 5000 0 (Suc (Suc 0)) 6200"
    by (simp add: wait_loop.simps[of ?env 5000 0 "Suc 0" 3100] p)
  also have "\<dots> = (Inl ConversionTimeout, 6200)"
    by (simp add: wait_loop.simps[of ?env 5000 0 "Suc (Suc 0)" 6200])
  finally show ?thesis by (simp add: waitForPPTConversion_def)
qed

theorem timeout_only_after_deadline_witness:
  "fst (waitForPPTConversion failing_net ''doc'' (Some 5000) 0) = Inl ConversionTimeout \<and>
   (5000::int) \<le> int (snd (waitForPPTConversion failing_net ''doc'' (Some 5000) 0)) - int 0 \<and>
   snd (waitForPPTConversion failing_net ''doc'' (Some 5000) 0) = 6200"
  using timeout_only_after_deadline[of failing_net "''doc''" "Some 5000" 0]
  by (simp add: failing_run)

end
